theory Spec2Isabelle
  imports Complex_Main "HOL-Library.Sublist" "HOL-Library.Product_Lexorder"
begin

section \<open>The service layer of src/main.py\<close>

text \<open>
  A Python exception is kept by the text \<open>str(e)\<close> gives for it, the only thing the
  service reads of it. What a handler raises is an \<open>HTTPException\<close>, what it returns a
  \<open>JSONResponse\<close> whose content is a dictionary with string keys.
\<close>

datatype exn = Exception (str: string)

datatype HTTPException = HTTPException (status_code: nat) (detail: string)

datatype JSONResponse = JSONResponse (content: "(string \<times> string) list")

text \<open>
  \<open>EXPECTED_API_KEY = os.environ.get('SCRUB_API_KEY')\<close> is \<open>None\<close> when the variable is
  unset, so the expected key is a \<open>string option\<close>; the header parameter is declared
  \<open>str\<close>. Python's \<open>x_api_key != EXPECTED_API_KEY\<close> compares a string with a string or
  with \<open>None\<close>.
\<close>

definition get_api_key :: "string option \<Rightarrow> string \<Rightarrow> HTTPException + string" where
  "get_api_key EXPECTED_API_KEY x_api_key =
     (if Some x_api_key \<noteq> EXPECTED_API_KEY
      then Inl (HTTPException 403 ''Forbidden'')
      else Inr x_api_key)"

text \<open>
  The context list that \<open>scrubber\<close> passes to \<open>analyzer.analyze\<close>. The source has no comma
  between \<open>'Actor Name:'\<close> and \<open>'Actor'\<close>, so Python joins the two literals into one
  element.
\<close>

definition scrub_context :: "string list" where
  "scrub_context =
     [''full name'', ''name'', ''postcode'', ''birth'', ''account'', ''address'', ''actor'',
      ''Actor Name'', ''Actor Name:Actor'', ''Message:'']"

text \<open>
  A redaction operator maps the matched span to its replacement.
  \<open>OperatorConfig("replace", {"new_value": v})\<close> is \<open>replace v\<close>; the operators
  dictionary of \<open>scrubber\<close> has the single key \<open>DEFAULT\<close>.
\<close>

type_synonym redaction_operator = "string \<Rightarrow> string"

definition replace :: "string \<Rightarrow> redaction_operator" where
  "replace new_value = (\<lambda>span. new_value)"

definition scrub_operators :: "(string \<times> redaction_operator) list" where
  "scrub_operators = [(''DEFAULT'', replace ''<REDACTED>'')]"

text \<open>
  \<open>scrubber\<close>: the two library calls, \<open>analyzer.analyze\<close> and \<open>engine.anonymize\<close>, are
  parameters; each returns its value or raises (\<open>Inl\<close>). An exception of the first call
  leaves the function before the second call is made.
\<close>

definition scrubber ::
  "(string \<Rightarrow> string \<Rightarrow> string list \<Rightarrow> 'e + 'r list) \<Rightarrow>
   (string \<Rightarrow> 'r list \<Rightarrow> (string \<times> redaction_operator) list \<Rightarrow> 'e + string) \<Rightarrow>
   string \<Rightarrow> string \<Rightarrow> 'e + string" where
  "scrubber analyzer_analyze engine_anonymize transcript lang =
     (case analyzer_analyze transcript lang scrub_context of
        Inl e \<Rightarrow> Inl e
      | Inr analyzer_results \<Rightarrow> engine_anonymize transcript analyzer_results scrub_operators)"

text \<open>The request body of \<open>/scrub\<close>; \<open>lang\<close> is \<open>'en'\<close> when the request leaves it out.\<close>

record DataModel =
  transcript :: string
  lang :: string

text \<open>
  \<open>scrub_text\<close>: the body of the \<open>/scrub\<close> handler, \<open>try\<close> and \<open>except Exception\<close>.
\<close>

definition scrub_text ::
  "(string \<Rightarrow> string \<Rightarrow> string list \<Rightarrow> exn + 'r list) \<Rightarrow>
   (string \<Rightarrow> 'r list \<Rightarrow> (string \<times> redaction_operator) list \<Rightarrow> exn + string) \<Rightarrow>
   DataModel \<Rightarrow> string \<Rightarrow> HTTPException + JSONResponse" where
  "scrub_text analyzer_analyze engine_anonymize data x_api_key =
     (case scrubber analyzer_analyze engine_anonymize (transcript data) (lang data) of
        Inr scrubbed \<Rightarrow> Inr (JSONResponse [(''scrubbed_text'', scrubbed)])
      | Inl e \<Rightarrow> Inl (HTTPException 500 (''Error processing text: '' @ str e)))"

text \<open>
  The route: \<open>Depends(get_api_key)\<close> runs before the handler, and the handler runs only
  when the dependency returns.
\<close>

definition scrub_route ::
  "string option \<Rightarrow>
   (string \<Rightarrow> string \<Rightarrow> string list \<Rightarrow> exn + 'r list) \<Rightarrow>
   (string \<Rightarrow> 'r list \<Rightarrow> (string \<times> redaction_operator) list \<Rightarrow> exn + string) \<Rightarrow>
   string \<Rightarrow> DataModel \<Rightarrow> HTTPException + JSONResponse" where
  "scrub_route EXPECTED_API_KEY analyzer_analyze engine_anonymize header data =
     (case get_api_key EXPECTED_API_KEY header of
        Inl forbidden \<Rightarrow> Inl forbidden
      | Inr x_api_key \<Rightarrow> scrub_text analyzer_analyze engine_anonymize data x_api_key)"

section \<open>The detection and redaction engine, as the specification describes it\<close>

text \<open>
  \<open>AnalyzerEngine.analyze\<close> and \<open>AnonymizerEngine.anonymize\<close> are calls into the presidio
  packages; src/main.py holds no code of theirs. The definitions of this section follow
  sections 3 and 4 of the specification.
\<close>

text \<open>
  Modelled from the spec: the Detection of section 3 (the analyzer result type is not in
  the sources). Offsets are positions in the original text, the score is a rational in
  place of the float.
\<close>

record Detection =
  d_start :: nat
  d_end :: nat
  d_label :: string
  d_score :: rat

text \<open>
  Modelled from the spec: the error taxonomy of section 7 (no error type is in the
  sources). An \<open>AnalysisError\<close> carries the language and the underlying cause.
\<close>

datatype error = ConfigError | AnalysisError string string | OverlapError

text \<open>
  Modelled from the spec: the RecognizerDefinition of section 3 (\<open>PatternRecognizer\<close> and
  recognizers.json are not in the sources). The regular expression of the rule is kept by
  what it computes: the function from a text to the spans of its matches, left to right.
\<close>

record RecognizerDefinition =
  entity_label :: string
  pattern :: "string \<Rightarrow> (nat \<times> nat) list"
  confidence :: rat
  context_keywords :: "string list"

text \<open>
  Modelled from the spec: the context boosting of section 4.1 (the recognizer's matching
  code is not in the sources). A keyword is found when it is a case-insensitive substring
  of the window, the text from \<open>radius\<close> characters before the match to \<open>radius\<close>
  characters after it; the radius and the boost increment are parameters.
\<close>

definition lower_char :: "char \<Rightarrow> char" where
  "lower_char c =
     (case map_of (zip ''ABCDEFGHIJKLMNOPQRSTUVWXYZ'' ''abcdefghijklmnopqrstuvwxyz'') c of
        Some l \<Rightarrow> l
      | None \<Rightarrow> c)"

definition lower :: "string \<Rightarrow> string" where
  "lower s = map lower_char s"

definition keyword_found :: "string list \<Rightarrow> string \<Rightarrow> bool" where
  "keyword_found keywords w = list_ex (\<lambda>k. sublist (lower k) (lower w)) keywords"

definition window :: "nat \<Rightarrow> string \<Rightarrow> nat \<Rightarrow> nat \<Rightarrow> string" where
  "window radius text s e = take ((e + radius) - (s - radius)) (drop (s - radius) text)"

definition boosted :: "rat \<Rightarrow> rat \<Rightarrow> rat" where
  "boosted boost base = min 1 (base + boost)"

text \<open>
  Modelled from the spec: the Pattern Recognizer of section 4.1 (not in the sources): one
  candidate for each match of the rule, scored with the base confidence, or with the
  boosted one when a keyword of the recognizer or a hint of the caller is in the window.
\<close>

definition recognize ::
  "rat \<Rightarrow> nat \<Rightarrow> string list \<Rightarrow> RecognizerDefinition \<Rightarrow> string \<Rightarrow> Detection list" where
  "recognize boost radius hints r text =
     map (\<lambda>(s, e).
            \<lparr>d_start = s, d_end = e, d_label = entity_label r,
             d_score = (if keyword_found (context_keywords r @ hints) (window radius text s e)
                        then boosted boost (confidence r) else confidence r)\<rparr>)
         (pattern r text)"

text \<open>
  Modelled from the spec: the overlap resolution of section 4.3, steps 4 and 5 (the
  analyzer's code is not in the sources). Candidates are sorted by score descending, then
  span length descending, then start ascending, by a stable sort on the key \<open>priority\<close>
  in lexicographic order; the sorted list is walked, a candidate being accepted when its
  range overlaps no accepted one; the accepted are returned sorted by start.
\<close>

definition overlaps :: "Detection \<Rightarrow> Detection \<Rightarrow> bool" where
  "overlaps a b = (d_start a < d_end b \<and> d_start b < d_end a)"

definition priority :: "Detection \<Rightarrow> rat \<times> int \<times> nat" where
  "priority d = (- d_score d, - (int (d_end d) - int (d_start d)), d_start d)"

fun greedy :: "Detection list \<Rightarrow> Detection list \<Rightarrow> Detection list" where
  "greedy accepted [] = accepted"
| "greedy accepted (c # cs) =
     greedy (if list_ex (overlaps c) accepted then accepted else accepted @ [c]) cs"

definition resolve_overlaps :: "Detection list \<Rightarrow> Detection list" where
  "resolve_overlaps candidates = sort_key d_start (greedy [] (sort_key priority candidates))"

text \<open>
  Modelled from the spec: the Registry of sections 3 and 4.2 (\<open>RecognizerRegistry\<close> is not
  in the sources), as the list of its definitions with their languages, built-in ones
  first, then the custom ones in registration order.
\<close>

definition recognizers_for ::
  "(string \<times> RecognizerDefinition) list \<Rightarrow> string \<Rightarrow> RecognizerDefinition list" where
  "recognizers_for reg language = map snd (filter (\<lambda>(l, r). l = language) reg)"

text \<open>
  Modelled from the spec: the Analyzer Engine of section 4.3 (\<open>AnalyzerEngine\<close> is not in
  the sources). The entity extractor is the field \<open>nlp_engine\<close>: given the text and the
  language it returns its candidates or fails with a cause.
\<close>

record AnalyzerEngine =
  nlp_engine :: "string \<Rightarrow> string \<Rightarrow> string + Detection list"
  registry :: "(string \<times> RecognizerDefinition) list"
  context_boost :: rat
  context_radius :: nat

definition analyze ::
  "AnalyzerEngine \<Rightarrow> string \<Rightarrow> string \<Rightarrow> string list \<Rightarrow> error + Detection list" where
  "analyze engine text language context_hint_list =
     (case nlp_engine engine text language of
        Inl cause \<Rightarrow> Inl (AnalysisError language cause)
      | Inr C_ner \<Rightarrow>
          Inr (resolve_overlaps
                 (C_ner @
                  concat (map (\<lambda>r. recognize (context_boost engine) (context_radius engine)
                                       context_hint_list r text)
                              (recognizers_for (registry engine) language)))))"

text \<open>
  Modelled from the spec: the Anonymizer Engine of section 4.4 (\<open>AnonymizerEngine\<close> is not
  in the sources). The operator of a detection is the one configured for its label, or
  the \<open>DEFAULT\<close> one, or a \<open>ConfigError\<close>. \<open>rewrite\<close> walks the detections in order of
  start: \<open>pos\<close> is the end of the previous detection in the original text, every \<open>take\<close>
  and \<open>drop\<close> reads the original text.
\<close>

definition operator_for ::
  "(string \<times> redaction_operator) list \<Rightarrow> string \<Rightarrow> redaction_operator option" where
  "operator_for operator_config label =
     (case map_of operator_config label of
        Some operator \<Rightarrow> Some operator
      | None \<Rightarrow> map_of operator_config ''DEFAULT'')"

fun rewrite ::
  "string \<Rightarrow> (string \<times> redaction_operator) list \<Rightarrow> nat \<Rightarrow> Detection list \<Rightarrow> error + string" where
  "rewrite text operator_config pos [] = Inr (drop pos text)"
| "rewrite text operator_config pos (d # ds) =
     (case operator_for operator_config (d_label d) of
        None \<Rightarrow> Inl ConfigError
      | Some operator \<Rightarrow>
          (case rewrite text operator_config (d_end d) ds of
             Inl e \<Rightarrow> Inl e
           | Inr rest \<Rightarrow>
               Inr (take (d_start d - pos) (drop pos text)
                    @ operator (take (d_end d - d_start d) (drop (d_start d) text))
                    @ rest)))"

definition anonymize ::
  "string \<Rightarrow> Detection list \<Rightarrow> (string \<times> redaction_operator) list \<Rightarrow> error + string" where
  "anonymize text detections operator_config =
     (if \<not> sorted_wrt (\<lambda>a b. \<not> overlaps a b) detections then Inl OverlapError
      else rewrite text operator_config 0 (sort_key d_start detections))"

subsection \<open>Recognizers for runs of digits\<close>

text \<open>
  Modelled from the spec: a rule for \<open>n\<close> consecutive digits, as the six-digit account
  number of section 8 (recognizers.json is not in the sources). \<open>digit_runs n i s\<close> gives
  the matches in \<open>s\<close>, whose first character is at offset \<open>i\<close> of the text: the leftmost
  match first, the search going on after the end of each match.
\<close>

function digit_runs :: "nat \<Rightarrow> nat \<Rightarrow> string \<Rightarrow> (nat \<times> nat) list" where
  "digit_runs n i s =
     (if n = 0 \<or> length s < n then []
      else if list_all (\<lambda>c. c \<in> set ''0123456789'') (take n s)
           then (i, i + n) # digit_runs n (i + n) (drop n s)
           else digit_runs n (Suc i) (tl s))"
  by pat_completeness auto
termination
  by (relation "measure (\<lambda>(n, i, s). length s)") auto

declare digit_runs.simps [simp del]

definition no_entities :: "string \<Rightarrow> string \<Rightarrow> string + Detection list" where
  "no_entities text language = Inr []"

definition digits_recognizer ::
  "string \<Rightarrow> nat \<Rightarrow> rat \<Rightarrow> string list \<Rightarrow> RecognizerDefinition" where
  "digits_recognizer label n base keywords =
     \<lparr>entity_label = label, pattern = digit_runs n 0, confidence = base,
      context_keywords = keywords\<rparr>"

text \<open>
  The account-number engine of section 8: one recognizer for six digits with base
  confidence 0.4, no entity extractor candidates.
\<close>

definition account_engine :: "rat \<Rightarrow> nat \<Rightarrow> string list \<Rightarrow> AnalyzerEngine" where
  "account_engine boost radius keywords =
     \<lparr>nlp_engine = no_entities,
      registry = [(''en'', digits_recognizer ''ACCOUNT'' 6 (4/10) keywords)],
      context_boost = boost, context_radius = radius\<rparr>"

text \<open>
  An engine with two recognizers: five digits with confidence 0.9, three digits with
  confidence 0.5.
\<close>

definition two_pattern_engine :: AnalyzerEngine where
  "two_pattern_engine =
     \<lparr>nlp_engine = no_entities,
      registry = [(''en'', digits_recognizer ''LONG'' 5 (9/10) []),
                  (''en'', digits_recognizer ''SHORT'' 3 (5/10) [])],
      context_boost = 35/100, context_radius = 5\<rparr>"

section \<open>Authentication\<close>

text \<open>
  C10. With \<open>SCRUB_API_KEY\<close> unset the expected key is \<open>None\<close>; every string sent in the
  \<open>x-api-key\<close> header is then rejected by \<open>get_api_key\<close> with status 403 and detail
  \<open>Forbidden\<close>, and the \<open>/scrub\<close> route answers with that exception whatever the
  request body and the engines are.
\<close>

theorem get_api_key_unset_forbidden:
  "get_api_key None x_api_key = Inl (HTTPException 403 ''Forbidden'')
   \<and> scrub_route None analyzer_analyze engine_anonymize x_api_key data
       = Inl (HTTPException 403 ''Forbidden'')"
  by (simp add: get_api_key_def scrub_route_def)

section \<open>The scrubber and the \<open>/scrub\<close> handler\<close>

text \<open>
  C3. \<open>scrubber\<close> calls the analyzer and then the anonymizer on the analyzer's results;
  an exception of the analyzer ends the call. Whatever the text and the language, the
  analyzer receives the same ten context hints, and the anonymizer receives a
  configuration whose only key is \<open>DEFAULT\<close>, bound to the replace operator with the
  literal \<open><REDACTED>\<close>, which replaces every matched span by that literal.
\<close>

theorem scrubber_composition:
  "scrubber analyzer_analyze engine_anonymize text language =
     (case analyzer_analyze text language
             [''full name'', ''name'', ''postcode'', ''birth'', ''account'', ''address'',
              ''actor'', ''Actor Name'', ''Actor Name:Actor'', ''Message:''] of
        Inl e \<Rightarrow> Inl e
      | Inr analyzer_results \<Rightarrow>
          engine_anonymize text analyzer_results [(''DEFAULT'', replace ''<REDACTED>'')])
   \<and> map fst scrub_operators = [''DEFAULT'']
   \<and> map_of scrub_operators label =
       (if label = ''DEFAULT'' then Some (replace ''<REDACTED>'') else None)
   \<and> replace ''<REDACTED>'' matched = ''<REDACTED>''"
  by (simp add: scrubber_def scrub_context_def scrub_operators_def replace_def
      split: sum.splits)

text \<open>
  C6. The \<open>/scrub\<close> handler answers in exactly one of two ways. When the analyzer raises,
  or the anonymizer raises, it raises one \<open>HTTPException\<close> with status 500 whose detail
  is \<open>Error processing text: \<close> followed by the exception's message, and no text is
  returned. Otherwise it returns a response whose \<open>scrubbed_text\<close> is the text the
  anonymizer produced from the whole transcript and all of the analyzer's results. The
  route answers with the 403 of \<open>get_api_key\<close> or with what the handler answers.
\<close>

theorem scrub_text_complete_or_error:
  "(case analyzer_analyze (transcript data) (lang data) scrub_context of
      Inl e \<Rightarrow>
        scrub_text analyzer_analyze engine_anonymize data x_api_key
          = Inl (HTTPException 500 (''Error processing text: '' @ str e))
    | Inr analyzer_results \<Rightarrow>
        (case engine_anonymize (transcript data) analyzer_results scrub_operators of
           Inl e \<Rightarrow>
             scrub_text analyzer_analyze engine_anonymize data x_api_key
               = Inl (HTTPException 500 (''Error processing text: '' @ str e))
         | Inr scrubbed \<Rightarrow>
             scrub_text analyzer_analyze engine_anonymize data x_api_key
               = Inr (JSONResponse [(''scrubbed_text'', scrubbed)])))
   \<and> scrub_route EXPECTED_API_KEY analyzer_analyze engine_anonymize x_api_key data
       = (if Some x_api_key \<noteq> EXPECTED_API_KEY then Inl (HTTPException 403 ''Forbidden'')
          else scrub_text analyzer_analyze engine_anonymize data x_api_key)"
  by (simp add: scrub_text_def scrubber_def scrub_route_def get_api_key_def
      split: sum.splits)

section \<open>Evaluation of the engine on concrete texts\<close>

lemmas engine_eval = analyze_def recognize_def recognizers_for_def resolve_overlaps_def
  priority_def overlaps_def digit_runs.simps digits_recognizer_def no_entities_def

lemmas keyword_eval = keyword_found_def window_def lower_def lower_char_def sublist_code(3)

lemmas anonymize_eval = anonymize_def operator_for_def scrub_operators_def replace_def

section \<open>Rewriting at the offsets of the original text\<close>

text \<open>
  C1. For the text \<open>My postcode is SW1A 1AA today\<close> and one detection at offsets 15 to 23,
  the span \<open>SW1A 1AA\<close>, the anonymizer with the operators of \<open>scrubber\<close> returns
  \<open>My postcode is <REDACTED> today\<close>. For any text, any single detection and any
  literal, whatever its length, the result is the original text before the detection's
  start, the literal, and the original text from the detection's end on.
\<close>

theorem anonymize_postcode:
  "anonymize ''My postcode is SW1A 1AA today''
      [\<lparr>d_start = 15, d_end = 23, d_label = label, d_score = sc\<rparr>] scrub_operators
     = Inr ''My postcode is <REDACTED> today''
   \<and> take (23 - 15) (drop 15 ''My postcode is SW1A 1AA today'') = ''SW1A 1AA''
   \<and> anonymize text [d] [(''DEFAULT'', replace literal)]
     = Inr (take (d_start d) text @ literal @ drop (d_end d) text)"
  by (simp add: anonymize_eval)

section \<open>Disjoint detections\<close>

lemma overlaps_symD: "overlaps a b \<Longrightarrow> overlaps b a"
  by (simp add: overlaps_def)

lemma disjoint_insort_key:
  "sorted_wrt (\<lambda>a b. \<not> overlaps a b) (insort_key f x xs)
     = ((\<forall>y\<in>set xs. \<not> overlaps x y) \<and> sorted_wrt (\<lambda>a b. \<not> overlaps a b) xs)"
  by (induction xs) (auto simp: set_insort_key dest: overlaps_symD)

lemma disjoint_sort_key:
  "sorted_wrt (\<lambda>a b. \<not> overlaps a b) (sort_key f xs) = sorted_wrt (\<lambda>a b. \<not> overlaps a b) xs"
  by (induction xs) (auto simp: disjoint_insort_key)

lemma greedy_disjoint:
  "sorted_wrt (\<lambda>a b. \<not> overlaps a b) accepted
   \<Longrightarrow> sorted_wrt (\<lambda>a b. \<not> overlaps a b) (greedy accepted cs)"
proof (induction cs arbitrary: accepted)
  case Nil
  then show ?case by simp
next
  case (Cons c cs)
  show ?case
  proof (cases "list_ex (overlaps c) accepted")
    case True
    with Cons show ?thesis by simp
  next
    case False
    then have "\<forall>a\<in>set accepted. \<not> overlaps a c"
      by (auto simp: list_ex_iff dest: overlaps_symD)
    with Cons.prems have "sorted_wrt (\<lambda>a b. \<not> overlaps a b) (accepted @ [c])"
      by (simp add: sorted_wrt_append)
    with Cons.IH False show ?thesis by simp
  qed
qed

lemma resolve_overlaps_disjoint: "sorted_wrt (\<lambda>a b. \<not> overlaps a b) (resolve_overlaps cs)"
  unfolding resolve_overlaps_def by (simp add: disjoint_sort_key greedy_disjoint)

text \<open>
  C2. Whenever the analyzer returns, no two of the detections it returns overlap: for any
  two positions \<open>i < j\<close> of the returned list, the ranges of the detections there are
  disjoint.
\<close>

theorem analyze_disjoint:
  assumes "analyze engine text language context_hint_list = Inr detections"
    and "i < j" and "j < length detections"
  shows "\<not> overlaps (detections ! i) (detections ! j)"
proof -
  from assms(1) have "sorted_wrt (\<lambda>a b. \<not> overlaps a b) detections"
    by (auto simp: analyze_def resolve_overlaps_disjoint split: sum.splits)
  with assms(2,3) show ?thesis
    by (simp add: sorted_wrt_iff_nth_less)
qed

theorem analyze_disjoint_witness:
  "analyze two_pattern_engine ''123456789'' ''en'' []
     = Inr [\<lparr>d_start = 0, d_end = 5, d_label = ''LONG'', d_score = 9/10\<rparr>,
            \<lparr>d_start = 6, d_end = 9, d_label = ''SHORT'', d_score = 5/10\<rparr>]
   \<and> \<not> overlaps \<lparr>d_start = 0, d_end = 5, d_label = ''LONG'', d_score = 9/10\<rparr>
                  \<lparr>d_start = 6, d_end = 9, d_label = ''SHORT'', d_score = 5/10\<rparr>"
proof -
  have h: "analyze two_pattern_engine ''123456789'' ''en'' []
     = Inr [\<lparr>d_start = 0, d_end = 5, d_label = ''LONG'', d_score = 9/10\<rparr>,
            \<lparr>d_start = 6, d_end = 9, d_label = ''SHORT'', d_score = 5/10\<rparr>]"
    by (simp add: engine_eval keyword_eval two_pattern_engine_def)
  from analyze_disjoint [OF h, of 0 1] h show ?thesis by simp
qed

section \<open>Context boosting\<close>

lemma window_sublist: "sublist (window radius text s e) text"
proof -
  have "sublist (window radius text s e) (drop (s - radius) text)"
    by (simp add: window_def)
  also have "sublist (drop (s - radius) text) text"
    by simp
  finally show ?thesis .
qed

lemma keyword_found_window:
  assumes "keyword_found keywords (window radius text s e)"
  shows "keyword_found keywords text"
proof -
  from assms obtain k where k: "k \<in> set keywords"
    and sub: "sublist (lower k) (lower (window radius text s e))"
    by (auto simp: keyword_found_def list_ex_iff)
  have "sublist (lower (window radius text s e)) (lower text)"
    unfolding lower_def by (rule map_mono_sublist) (rule window_sublist)
  with sub have "sublist (lower k) (lower text)"
    by (rule sublist_order.order.trans)
  with k show ?thesis
    by (auto simp: keyword_found_def list_ex_iff)
qed

lemma window_whole:
  assumes "s \<le> radius" and "length text \<le> e + radius"
  shows "window radius text s e = text"
  using assms by (simp add: window_def)

lemma runs_account: "digit_runs 6 0 ''account: 123456'' = [(9, 15)]"
  by (simp add: digit_runs.simps)

lemma runs_random: "digit_runs 6 0 ''random: 123456'' = [(8, 14)]"
  by (simp add: digit_runs.simps)

lemma resolve_overlaps_single: "resolve_overlaps [d] = [d]"
  by (simp add: resolve_overlaps_def)

lemma analyze_account_engine:
  "analyze (account_engine boost radius keywords) text ''en'' hints
     = Inr (resolve_overlaps
         (map (\<lambda>(s, e). \<lparr>d_start = s, d_end = e, d_label = ''ACCOUNT'',
                  d_score = (if keyword_found (keywords @ hints) (window radius text s e)
                             then boosted boost (4/10) else 4/10)\<rparr>)
              (digit_runs 6 0 text)))"
  by (simp add: analyze_def account_engine_def recognizers_for_def recognize_def
      digits_recognizer_def no_entities_def cong: if_cong)

lemma found_account: "keyword_found [''account''] ''account: 123456''"
  by (simp add: keyword_eval)

lemma found_account_hints: "keyword_found scrub_context ''account: 123456''"
  by (simp add: keyword_eval scrub_context_def)

lemma not_found_random: "\<not> keyword_found [''account''] ''random: 123456''"
  by (simp add: keyword_eval)

lemma not_found_random_hints: "\<not> keyword_found scrub_context ''random: 123456''"
  by (simp add: keyword_eval scrub_context_def)

text \<open>
  C8. Take the recognizer for six digits with base confidence 0.4, a boost increment above
  zero and a window radius of at least nine characters. With the context keyword
  \<open>account\<close>, the text \<open>account: 123456\<close> yields one detection, the digits at 9 to 15,
  with the boosted score, which is above 0.4 and at most 1; the text \<open>random: 123456\<close>
  yields the digits at 8 to 14 with the score 0.4. The same holds when the recognizer has
  no keyword of its own and the caller's hints are those of \<open>scrubber\<close>, which hold
  \<open>account\<close>.
\<close>

theorem context_boosting:
  assumes "0 < boost" and "9 \<le> radius"
  shows "analyze (account_engine boost radius [''account'']) ''account: 123456'' ''en'' []
           = Inr [\<lparr>d_start = 9, d_end = 15, d_label = ''ACCOUNT'',
                   d_score = min 1 (4/10 + boost)\<rparr>]
         \<and> 4/10 < min 1 (4/10 + boost) \<and> min 1 (4/10 + boost) \<le> 1
         \<and> analyze (account_engine boost radius [''account'']) ''random: 123456'' ''en'' []
           = Inr [\<lparr>d_start = 8, d_end = 14, d_label = ''ACCOUNT'', d_score = 4/10\<rparr>]
         \<and> analyze (account_engine boost radius []) ''account: 123456'' ''en'' scrub_context
           = Inr [\<lparr>d_start = 9, d_end = 15, d_label = ''ACCOUNT'',
                   d_score = min 1 (4/10 + boost)\<rparr>]
         \<and> analyze (account_engine boost radius []) ''random: 123456'' ''en'' scrub_context
           = Inr [\<lparr>d_start = 8, d_end = 14, d_label = ''ACCOUNT'', d_score = 4/10\<rparr>]"
proof -
  from assms(2) have w: "window radius ''account: 123456'' 9 15 = ''account: 123456''"
    by (intro window_whole) simp_all
  have n1: "\<not> keyword_found [''account''] (window radius ''random: 123456'' 8 14)"
    using keyword_found_window not_found_random by blast
  have n2: "\<not> keyword_found scrub_context (window radius ''random: 123456'' 8 14)"
    using keyword_found_window not_found_random_hints by blast
  have a: "analyze (account_engine boost radius [''account'']) ''account: 123456'' ''en'' []
           = Inr [\<lparr>d_start = 9, d_end = 15, d_label = ''ACCOUNT'',
                   d_score = min 1 (4/10 + boost)\<rparr>]"
    by (simp add: analyze_account_engine runs_account resolve_overlaps_single w found_account
        boosted_def)
  have b: "analyze (account_engine boost radius [''account'']) ''random: 123456'' ''en'' []
           = Inr [\<lparr>d_start = 8, d_end = 14, d_label = ''ACCOUNT'', d_score = 4/10\<rparr>]"
    by (simp add: analyze_account_engine runs_random resolve_overlaps_single n1)
  have c: "analyze (account_engine boost radius []) ''account: 123456'' ''en'' scrub_context
           = Inr [\<lparr>d_start = 9, d_end = 15, d_label = ''ACCOUNT'',
                   d_score = min 1 (4/10 + boost)\<rparr>]"
    by (simp add: analyze_account_engine runs_account resolve_overlaps_single w
        found_account_hints boosted_def)
  have d: "analyze (account_engine boost radius []) ''random: 123456'' ''en'' scrub_context
           = Inr [\<lparr>d_start = 8, d_end = 14, d_label = ''ACCOUNT'', d_score = 4/10\<rparr>]"
    by (simp add: analyze_account_engine runs_random resolve_overlaps_single n2)
  from assms(1) have e: "4/10 < min 1 (4/10 + boost) \<and> min 1 (4/10 + boost) \<le> 1"
    by simp
  from a b c d e show ?thesis by simp
qed

theorem context_boosting_witness:
  "(0::rat) < 35/100 \<and> (9::nat) \<le> 9
   \<and> analyze (account_engine (35/100) 9 [''account'']) ''account: 123456'' ''en'' []
       = Inr [\<lparr>d_start = 9, d_end = 15, d_label = ''ACCOUNT'', d_score = 3/4\<rparr>]
   \<and> analyze (account_engine (35/100) 9 [''account'']) ''random: 123456'' ''en'' []
       = Inr [\<lparr>d_start = 8, d_end = 14, d_label = ''ACCOUNT'', d_score = 4/10\<rparr>]"
proof -
  have h1: "(0::rat) < 35/100" by simp
  have h2: "(9::nat) \<le> 9" by simp
  from context_boosting [OF h1 h2] show ?thesis by simp
qed

end
